theory Spec2Isabelle
  imports Main
begin

section \<open>JavaScript values and dictionaries\<close>

text \<open>
  A translation payload is any JavaScript value (\<^verbatim>\<open>Dictionary<T = any>\<close>). The model keeps
  the kinds of value whose truthiness differs, since the accessors test presence with
  \<^verbatim>\<open>!value\<close>. Numbers are integers here (no NaN, no fractions); a function is known by
  its name only.
\<close>

datatype jsval =
    JUndefined
  | JNull
  | JBool bool
  | JNum int
  | JStr string
  | JObj "(string \<times> jsval) list"
  | JFunction string

fun truthy :: "jsval \<Rightarrow> bool" where
  "truthy JUndefined = False"
| "truthy JNull = False"
| "truthy (JBool b) = b"
| "truthy (JNum n) = (n \<noteq> 0)"
| "truthy (JStr s) = (s \<noteq> [])"
| "truthy (JObj kvs) = True"
| "truthy (JFunction name) = True"

text \<open>
  A dictionary is an object. \<open>own\<close> holds its own enumerable properties in the order
  \<^verbatim>\<open>Object.keys\<close> lists them; \<open>other\<close> holds what a property read finds beyond those: the
  members inherited through the prototype chain (and own properties that are not
  enumerable).
\<close>

record dictionary =
  own :: "(string \<times> jsval) list"
  other :: "(string \<times> jsval) list"

definition Object_keys :: "dictionary \<Rightarrow> string list" where
  "Object_keys d = map fst (own d)"

text \<open>
  \<^verbatim>\<open>data[key]\<close>: the value of the own property of that name; when there is none, the
  member of that name found through the prototype chain; \<^verbatim>\<open>undefined\<close> when there is
  none either.
\<close>

definition get_prop :: "dictionary \<Rightarrow> string \<Rightarrow> jsval" where
  "get_prop d k =
     (case map_of (own d) k of
        Some v \<Rightarrow> v
      | None \<Rightarrow> (case map_of (other d) k of Some v \<Rightarrow> v | None \<Rightarrow> JUndefined))"

text \<open>
  The members every plain object (an object literal, the result of \<^verbatim>\<open>JSON.parse\<close>)
  inherits from \<^verbatim>\<open>Object.prototype\<close>: eleven functions, and \<^verbatim>\<open>__proto__\<close>, which reads as
  the prototype object itself. \<open>plain\<close> is the plain object with the given properties.
\<close>

definition Object_prototype :: "(string \<times> jsval) list" where
  "Object_prototype =
     [(''constructor'', JFunction ''Object''),
      (''__defineGetter__'', JFunction ''__defineGetter__''),
      (''__defineSetter__'', JFunction ''__defineSetter__''),
      (''hasOwnProperty'', JFunction ''hasOwnProperty''),
      (''__lookupGetter__'', JFunction ''__lookupGetter__''),
      (''__lookupSetter__'', JFunction ''__lookupSetter__''),
      (''isPrototypeOf'', JFunction ''isPrototypeOf''),
      (''propertyIsEnumerable'', JFunction ''propertyIsEnumerable''),
      (''toString'', JFunction ''toString''),
      (''valueOf'', JFunction ''valueOf''),
      (''toLocaleString'', JFunction ''toLocaleString''),
      (''__proto__'', JObj [])]"

definition plain :: "(string \<times> jsval) list \<Rightarrow> dictionary" where
  "plain properties = \<lparr> own = properties, other = Object_prototype \<rparr>"

section \<open>Errors\<close>

text \<open>
  The source throws \<^verbatim>\<open>Error\<close> objects that differ in their message only. Each message is
  one constructor; \<open>TypeError\<close> is what the runtime throws when a member of \<^verbatim>\<open>undefined\<close>
  is used, and \<open>External\<close> is an error thrown by an injected recorder or preset function.
\<close>

datatype error =
    AlreadyInitialized
  | NotReady
  | EmptyDictionary
  | LanguageUnavailable string "string list"
  | PresetUnavailable string "string list"
  | NoMatch
  | AlreadyDisposed
  | TypeError
  | External string

text \<open>\<^verbatim>\<open>Array.prototype.toString\<close>, as used by the template literals: the elements joined by commas.\<close>

fun join_comma :: "string list \<Rightarrow> string" where
  "join_comma [] = []"
| "join_comma [x] = x"
| "join_comma (x # y # ys) = x @ '','' @ join_comma (y # ys)"

definition dquote :: string where
  "dquote = [CHR 0x22]"

fun message :: "error \<Rightarrow> string" where
  "message AlreadyInitialized = ''[langer] Invalid operation. This has been initialized.''"
| "message NotReady =
     ''[langer] Invalid operation. Not initialized yet, failed to initialize or has been disposed.''"
| "message EmptyDictionary =
     ''[langer] Initialization failed. Unable to get the list of available languages.''"
| "message (LanguageUnavailable language avail) =
     ''[langer] Cannot speak the '' @ dquote @ language @ dquote @
     '' language that are not on the available languages('' @ join_comma avail @ '').''"
| "message (PresetUnavailable lang avail) =
     ''[langer] The preset language '' @ dquote @ lang @ dquote @
     '' is not on the available languages('' @ join_comma avail @ '').''"
| "message NoMatch =
     ''[langer] The presetLanguage function cannot preset the current language.''"
| "message AlreadyDisposed = ''[langer] Invalid operation. This has been disposed.''"
| "message TypeError = ''TypeError''"
| "message (External m) = m"

section \<open>The default preset resolver\<close>

text \<open>\<^verbatim>\<open>lang.split('-')[0]\<close>: the text before the first hyphen, the whole string when there is none.\<close>

definition split_first :: "string \<Rightarrow> string" where
  "split_first lang = takeWhile (\<lambda>c. c \<noteq> CHR ''-'') lang"

text \<open>
  The callback of \<^verbatim>\<open>priorities.some\<close>, run over the priorities in order until it returns
  true; the result is the variable \<^verbatim>\<open>found\<close> (\<open>None\<close> is \<^verbatim>\<open>undefined\<close>).
  The test \<^verbatim>\<open>!found\<close> that follows is true of \<^verbatim>\<open>undefined\<close> and of the empty string.
\<close>

fun some_found :: "string list \<Rightarrow> string list \<Rightarrow> string option" where
  "some_found availableLanguages [] = None"
| "some_found availableLanguages (lang # priorities) =
     (if lang \<in> set availableLanguages then Some lang
      else if split_first lang \<in> set availableLanguages then Some (split_first lang)
      else some_found availableLanguages priorities)"

definition presetLanguage :: "string list \<Rightarrow> string list \<Rightarrow> error + string" where
  "presetLanguage availableLanguages priorities =
     (case some_found availableLanguages priorities of
        None \<Rightarrow> Inl NoMatch
      | Some found \<Rightarrow> if found = [] then Inl NoMatch else Inr found)"

text \<open>
  The resolver in the specification's words: the first preference, in order, that is an
  available key or whose text before the first hyphen is one, and the key it matched
  (the exact match before the stripped one); \<open>NoMatch\<close> when there is none.
\<close>

definition first_match :: "string list \<Rightarrow> string list \<Rightarrow> string option" where
  "first_match availableLanguages preferences =
     (case find (\<lambda>p. p \<in> set availableLanguages \<or> split_first p \<in> set availableLanguages)
             preferences of
        None \<Rightarrow> None
      | Some p \<Rightarrow> Some (if p \<in> set availableLanguages then p else split_first p))"

definition spec_presetLanguage :: "string list \<Rightarrow> string list \<Rightarrow> error + string" where
  "spec_presetLanguage availableLanguages preferences =
     (case first_match availableLanguages preferences of
        None \<Rightarrow> Inl NoMatch
      | Some key \<Rightarrow> Inr key)"

section \<open>Collaborators\<close>

text \<open>
  A recorder is a pair of functions over its backing store \<open>'b\<close>, \<^verbatim>\<open>get\<close> and \<^verbatim>\<open>set\<close> in
  the source. Either may throw, and either may change the store. \<open>None\<close> is the \<^verbatim>\<open>null\<close>
  that \<^verbatim>\<open>get\<close> returns when nothing is remembered.
\<close>

record 'b Recorder =
  get_rec :: "'b \<Rightarrow> (error + string option) \<times> 'b"
  set_rec :: "string \<Rightarrow> 'b \<Rightarrow> (error + unit) \<times> 'b"

text \<open>A preset is a fixed key or a function of the available and the navigator languages.\<close>

datatype Preset =
    PresetString string
  | PresetFunction "string list \<Rightarrow> string list \<Rightarrow> error + string"

text \<open>
  The default recorder keeps the language in \<^verbatim>\<open>localStorage\<close>, a map from item names to
  strings; \<^verbatim>\<open>getItem\<close> of a missing item is \<^verbatim>\<open>null\<close>.
\<close>

definition LOCAL_STORAGE_KEY :: string where
  "LOCAL_STORAGE_KEY = ''langer-local-storage-key''"

definition recorder :: "(string \<rightharpoonup> string) Recorder" where
  "recorder =
     \<lparr> get_rec = (\<lambda>localStorage. (Inr (localStorage LOCAL_STORAGE_KEY), localStorage)),
       set_rec = (\<lambda>lang localStorage. (Inr (), localStorage(LOCAL_STORAGE_KEY \<mapsto> lang))) \<rparr>"

text \<open>What lies outside the instance: the recorder's store and \<^verbatim>\<open>navigator.languages\<close>.\<close>

record 'b world =
  backing :: 'b
  navigator_languages :: "string list"

section \<open>The Langer class\<close>

text \<open>
  The fields of an instance; \<open>None\<close> and \<open>JUndefined\<close> are \<^verbatim>\<open>undefined\<close>. The leading
  underscore of the source's field names is written \<open>u_\<close>.
\<close>

record 'b langer =
  u_says :: jsval
  u_data :: "dictionary option"
  u_availableLanguages :: "string list option"
  u_currLanguage :: "string option"
  u_recorder :: "'b Recorder option"
  u_preset :: "Preset option"
  u_initialized :: bool
  u_disposed :: bool

text \<open>
  A method returns its result or the error it threw, together with the instance and the
  world as it left them: a method that throws keeps the assignments it made before.
  The methods are asynchronous in the source; the model runs each call to completion, one
  call at a time.
\<close>

type_synonym ('a, 'b) outcome = "(error + 'a) \<times> 'b langer \<times> 'b world"

text \<open>The constructor, after \<^verbatim>\<open>defaults\<close> has filled in the options that were left out.\<close>

definition new_Langer :: "'b Recorder \<Rightarrow> Preset \<Rightarrow> 'b langer" where
  "new_Langer r p =
     \<lparr> u_says = JUndefined, u_data = None, u_availableLanguages = None,
       u_currLanguage = None, u_recorder = Some r, u_preset = Some p,
       u_initialized = False, u_disposed = False \<rparr>"

definition getDefOptions :: "(string \<rightharpoonup> string) Recorder \<times> Preset" where
  "getDefOptions = (recorder, PresetFunction presetLanguage)"

definition initialized :: "'b langer \<Rightarrow> bool" where
  "initialized s = u_initialized s"

definition disposed :: "'b langer \<Rightarrow> bool" where
  "disposed s = u_disposed s"

definition changeSays :: "string \<Rightarrow> 'b langer \<Rightarrow> 'b world \<Rightarrow> (unit, 'b) outcome" where
  "changeSays language s w =
     (let s1 = s\<lparr>u_currLanguage := Some language\<rparr>
      in case u_recorder s1 of
           None \<Rightarrow> (Inl TypeError, s1, w)
         | Some r \<Rightarrow>
             (case set_rec r language (backing w) of
                (Inl e, b) \<Rightarrow> (Inl e, s1, w\<lparr>backing := b\<rparr>)
              | (Inr u, b) \<Rightarrow>
                  (case u_data s1 of
                     None \<Rightarrow> (Inl TypeError, s1, w\<lparr>backing := b\<rparr>)
                   | Some data \<Rightarrow>
                       (Inr (), s1\<lparr>u_says := get_prop data language\<rparr>, w\<lparr>backing := b\<rparr>))))"

text \<open>
  The accessors test their field with \<^verbatim>\<open>!\<close>: an array is always truthy, a string unless
  it is empty, a payload as \<open>truthy\<close> says.
\<close>

definition availableLanguages :: "'b langer \<Rightarrow> error + string list" where
  "availableLanguages s =
     (case u_availableLanguages s of None \<Rightarrow> Inl NotReady | Some langs \<Rightarrow> Inr langs)"

definition speaking :: "'b langer \<Rightarrow> error + string" where
  "speaking s =
     (case u_currLanguage s of
        None \<Rightarrow> Inl NotReady
      | Some lang \<Rightarrow> if lang = [] then Inl NotReady else Inr lang)"

definition says :: "'b langer \<Rightarrow> error + jsval" where
  "says s = (if \<not> truthy (u_says s) then Inl NotReady else Inr (u_says s))"

definition speak :: "string \<Rightarrow> 'b langer \<Rightarrow> 'b world \<Rightarrow> (unit, 'b) outcome" where
  "speak language s w =
     (case u_availableLanguages s of
        None \<Rightarrow> (Inl NotReady, s, w)
      | Some langs \<Rightarrow>
          if language \<notin> set langs then (Inl (LanguageUnavailable language langs), s, w)
          else changeSays language s w)"

text \<open>The call of the preset: a fixed key is taken as it is, a function may throw.\<close>

definition call_preset :: "'b langer \<Rightarrow> string list \<Rightarrow> 'b world \<Rightarrow> error + string" where
  "call_preset s langs w =
     (case u_preset s of
        None \<Rightarrow> Inl TypeError
      | Some (PresetString lang) \<Rightarrow> Inr lang
      | Some (PresetFunction f) \<Rightarrow> f langs (navigator_languages w))"

definition resetLanguage :: "'b langer \<Rightarrow> 'b world \<Rightarrow> (string, 'b) outcome" where
  "resetLanguage s w =
     (case u_availableLanguages s of
        None \<Rightarrow> (Inl NotReady, s, w)
      | Some langs \<Rightarrow>
          (case call_preset s langs w of
             Inl e \<Rightarrow> (Inl e, s, w)
           | Inr lang \<Rightarrow>
               if lang \<notin> set langs then (Inl (PresetUnavailable lang langs), s, w)
               else (case changeSays lang s w of
                       (Inl e, s', w') \<Rightarrow> (Inl e, s', w')
                     | (Inr u, s', w') \<Rightarrow> (Inr lang, s', w'))))"

text \<open>\<^verbatim>\<open>await this._recorder.get()\<close>; the recorder is \<^verbatim>\<open>undefined\<close> after \<^verbatim>\<open>dispose\<close>.\<close>

definition recorder_get :: "'b langer \<Rightarrow> 'b world \<Rightarrow> (error + string option) \<times> 'b world" where
  "recorder_get s w =
     (case u_recorder s of
        None \<Rightarrow> (Inl TypeError, w)
      | Some r \<Rightarrow> (case get_rec r (backing w) of (res, b) \<Rightarrow> (res, w\<lparr>backing := b\<rparr>)))"

text \<open>
  \<^verbatim>\<open>this._currLanguage || (await this._recorder.get())\<close>: the recorder is asked when the
  field is \<^verbatim>\<open>undefined\<close> or the empty string.
\<close>

definition remembered :: "'b langer \<Rightarrow> 'b world \<Rightarrow> (error + string option) \<times> 'b world" where
  "remembered s w =
     (case u_currLanguage s of
        None \<Rightarrow> recorder_get s w
      | Some c \<Rightarrow> if c = [] then recorder_get s w else (Inr (Some c), w))"

text \<open>\<^verbatim>\<open>await this.resetLanguage()\<close> with the returned key dropped.\<close>

definition resetLanguage_void :: "'b langer \<Rightarrow> 'b world \<Rightarrow> (unit, 'b) outcome" where
  "resetLanguage_void s w =
     (case resetLanguage s w of
        (Inl e, s', w') \<Rightarrow> (Inl e, s', w')
      | (Inr l, s', w') \<Rightarrow> (Inr (), s', w'))"

definition internalUpdate :: "dictionary \<Rightarrow> bool \<Rightarrow> 'b langer \<Rightarrow> 'b world \<Rightarrow> (unit, 'b) outcome" where
  "internalUpdate data reset s w =
     (let s1 = s\<lparr>u_data := Some data\<rparr>;
          langs = Object_keys data
      in if langs = [] then (Inl EmptyDictionary, s1, w)
         else
           (let s2 = s1\<lparr>u_availableLanguages := Some langs\<rparr>
            in if reset then resetLanguage_void s2 w
               else
                 (case remembered s2 w of
                    (Inl e, w1) \<Rightarrow> (Inl e, s2, w1)
                  | (Inr None, w1) \<Rightarrow> resetLanguage_void s2 w1
                  | (Inr (Some lang), w1) \<Rightarrow>
                      if lang = [] then resetLanguage_void s2 w1 else changeSays lang s2 w1)))"

definition initialize :: "dictionary \<Rightarrow> bool \<Rightarrow> 'b langer \<Rightarrow> 'b world \<Rightarrow> (unit, 'b) outcome" where
  "initialize data reset s w =
     (if u_initialized s then (Inl AlreadyInitialized, s, w)
      else (case internalUpdate data reset s w of
              (Inl e, s', w') \<Rightarrow> (Inl e, s', w')
            | (Inr u, s', w') \<Rightarrow> (Inr (), s'\<lparr>u_initialized := True\<rparr>, w')))"

definition update :: "dictionary \<Rightarrow> bool \<Rightarrow> 'b langer \<Rightarrow> 'b world \<Rightarrow> (unit, 'b) outcome" where
  "update data reset s w =
     (if \<not> u_initialized s \<or> u_disposed s then (Inl NotReady, s, w)
      else internalUpdate data reset s w)"

definition dispose :: "'b langer \<Rightarrow> error + 'b langer" where
  "dispose s =
     (if u_disposed s then Inl AlreadyDisposed
      else Inr (s\<lparr> u_recorder := None, u_preset := None, u_says := JUndefined, u_data := None,
                   u_availableLanguages := None, u_currLanguage := None, u_disposed := True \<rparr>))"

section \<open>Sequences of calls\<close>

text \<open>
  A caller drives an instance by a sequence of calls, each of which returns or throws; the
  caller may go on after an error. \<open>step\<close> is one call, \<open>run\<close> a sequence of them.
\<close>

datatype call =
    Initialize dictionary bool
  | Update dictionary bool
  | Speak string
  | ResetLanguage
  | Dispose
  | GetAvailableLanguages
  | GetSpeaking
  | GetSays

datatype ret = RVoid | RLang string | RLangs "string list" | RSays jsval

definition returning :: "('a \<Rightarrow> ret) \<Rightarrow> ('a, 'b) outcome \<Rightarrow> (ret, 'b) outcome" where
  "returning f out = (case out of (res, s, w) \<Rightarrow> (map_sum id f res, s, w))"

fun step :: "call \<Rightarrow> 'b langer \<times> 'b world \<Rightarrow> (ret, 'b) outcome" where
  "step (Initialize data reset) (s, w) = returning (\<lambda>u. RVoid) (initialize data reset s w)"
| "step (Update data reset) (s, w) = returning (\<lambda>u. RVoid) (update data reset s w)"
| "step (Speak language) (s, w) = returning (\<lambda>u. RVoid) (speak language s w)"
| "step ResetLanguage (s, w) = returning RLang (resetLanguage s w)"
| "step Dispose (s, w) =
     (case dispose s of Inl e \<Rightarrow> (Inl e, s, w) | Inr s' \<Rightarrow> (Inr RVoid, s', w))"
| "step GetAvailableLanguages (s, w) = (map_sum id RLangs (availableLanguages s), s, w)"
| "step GetSpeaking (s, w) = (map_sum id RLang (speaking s), s, w)"
| "step GetSays (s, w) = (map_sum id RSays (says s), s, w)"

fun run :: "call list \<Rightarrow> 'b langer \<times> 'b world \<Rightarrow> 'b langer \<times> 'b world" where
  "run [] sw = sw"
| "run (c # cs) sw = run cs (snd (step c sw))"

text \<open>
  The instances a program can hold: a constructed one, and what any call leaves of one,
  whatever the world is when the call is made.
\<close>

inductive reachable :: "'b langer \<Rightarrow> bool" where
  constructed: "reachable (new_Langer r p)"
| called: "reachable s \<Longrightarrow> reachable (fst (snd (step c (s, w))))"

section \<open>Data of the test suite\<close>

text \<open>
  The dictionaries and the navigator languages of the repository's tests, with the
  payloads cut down to two entries and the Chinese and Japanese texts written as ASCII
  stand-ins.
\<close>

definition fetched :: dictionary where
  "fetched = plain
     [(''en'', JObj [(''confirm'', JStr ''Confirm''), (''cancel'', JStr ''Cancel'')]),
      (''zh'', JObj [(''confirm'', JStr ''zh-confirm''), (''cancel'', JStr ''zh-cancel'')])]"

definition updated :: dictionary where
  "updated = plain
     [(''en'', JObj [(''confirm'', JStr ''Confirm''), (''enter'', JStr ''Enter'')]),
      (''zh'', JObj [(''confirm'', JStr ''zh-confirm''), (''enter'', JStr ''zh-enter'')]),
      (''ja'', JObj [(''confirm'', JStr ''ja-confirm''), (''enter'', JStr ''ja-enter'')])]"

definition priorities :: "string list" where
  "priorities = [''en-US'', ''en'', ''zh-TW'', ''zh'']"

text \<open>A browser with nothing in \<^verbatim>\<open>localStorage\<close>, and one that remembers a language.\<close>

definition browser :: "(string \<rightharpoonup> string) world" where
  "browser = \<lparr> backing = Map.empty, navigator_languages = priorities \<rparr>"

definition browser_saved :: "string \<Rightarrow> (string \<rightharpoonup> string) world" where
  "browser_saved lang =
     \<lparr> backing = [LOCAL_STORAGE_KEY \<mapsto> lang], navigator_languages = priorities \<rparr>"

text \<open>\<^verbatim>\<open>new Langer()\<close>, and the instance after some calls of the tests in that browser.\<close>

definition default_Langer :: "(string \<rightharpoonup> string) langer" where
  "default_Langer = new_Langer (fst getDefOptions) (snd getDefOptions)"

definition initialized_run :: "(string \<rightharpoonup> string) langer \<times> (string \<rightharpoonup> string) world" where
  "initialized_run = run [Initialize fetched False] (default_Langer, browser)"

definition disposed_run :: "(string \<rightharpoonup> string) langer \<times> (string \<rightharpoonup> string) world" where
  "disposed_run = run [Initialize fetched False, Dispose] (default_Langer, browser)"

definition speaking_ja_run :: "(string \<rightharpoonup> string) langer \<times> (string \<rightharpoonup> string) world" where
  "speaking_ja_run = run [Initialize updated False, Speak ''ja''] (default_Langer, browser)"

text \<open>
  A recorder that remembers nothing and whose store takes a limited number of writes:
  \<^verbatim>\<open>set\<close> throws once the quota is used up.
\<close>

definition quota_recorder :: "nat Recorder" where
  "quota_recorder =
     \<lparr> get_rec = (\<lambda>n. (Inr None, n)),
       set_rec = (\<lambda>lang n. if n = 0 then (Inl (External ''QuotaExceededError''), n)
                            else (Inr (), n - 1)) \<rparr>"

text \<open>
  An instance with that recorder and the fixed preset en, initialized with the one write
  the store had left.
\<close>

definition quota_run :: "nat langer \<times> nat world" where
  "quota_run =
     run [Initialize fetched False]
       (new_Langer quota_recorder (PresetString ''en''),
        \<lparr> backing = 1, navigator_languages = priorities \<rparr>)"

section \<open>What each method leaves of the instance\<close>

lemma get_prop_absent:
  "k \<notin> set (Object_keys d) \<Longrightarrow> k \<notin> set (map fst (other d)) \<Longrightarrow> get_prop d k = JUndefined"
  by (simp add: get_prop_def Object_keys_def map_of_eq_None_iff [THEN iffD2])

lemma get_prop_inherited:
  "k \<notin> set (Object_keys d) \<Longrightarrow> map_of (other d) k = Some v \<Longrightarrow> get_prop d k = v"
  by (simp add: get_prop_def Object_keys_def map_of_eq_None_iff [THEN iffD2])

lemma changeSays_ok:
  "u_recorder s = Some r \<Longrightarrow> set_rec r l (backing w) = (Inr (), b) \<Longrightarrow> u_data s = Some d \<Longrightarrow>
   changeSays l s w = (Inr (), s\<lparr>u_currLanguage := Some l, u_says := get_prop d l\<rparr>, w\<lparr>backing := b\<rparr>)"
  by (simp add: changeSays_def)

lemma changeSays_fail:
  "u_recorder s = Some r \<Longrightarrow> set_rec r l (backing w) = (Inl e, b) \<Longrightarrow>
   changeSays l s w = (Inl e, s\<lparr>u_currLanguage := Some l\<rparr>, w\<lparr>backing := b\<rparr>)"
  by (simp add: changeSays_def)

lemma changeSays_Inr:
  "changeSays l s w = (Inr u, s', w') \<Longrightarrow>
   \<exists>r b d. u_recorder s = Some r \<and> set_rec r l (backing w) = (Inr (), b) \<and> u_data s = Some d \<and>
     s' = s\<lparr>u_currLanguage := Some l, u_says := get_prop d l\<rparr> \<and> w' = w\<lparr>backing := b\<rparr>"
  by (auto simp: changeSays_def Let_def split: option.splits sum.splits prod.splits)

lemma changeSays_fields:
  "changeSays l s w = (res, s', w') \<Longrightarrow>
   u_availableLanguages s' = u_availableLanguages s \<and> u_data s' = u_data s \<and>
   u_initialized s' = u_initialized s \<and> u_disposed s' = u_disposed s \<and>
   u_recorder s' = u_recorder s \<and> u_preset s' = u_preset s \<and> u_currLanguage s' = Some l"
  by (auto simp: changeSays_def Let_def split: option.splits sum.splits prod.splits)

lemma speak_fields:
  "speak l s w = (res, s', w') \<Longrightarrow>
   u_availableLanguages s' = u_availableLanguages s \<and> u_data s' = u_data s \<and>
   u_initialized s' = u_initialized s \<and> u_disposed s' = u_disposed s \<and>
   u_recorder s' = u_recorder s \<and> u_preset s' = u_preset s"
  by (auto simp: speak_def split: option.splits if_splits dest: changeSays_fields)

lemma resetLanguage_fields:
  "resetLanguage s w = (res, s', w') \<Longrightarrow>
   u_availableLanguages s' = u_availableLanguages s \<and> u_data s' = u_data s \<and>
   u_initialized s' = u_initialized s \<and> u_disposed s' = u_disposed s \<and>
   u_recorder s' = u_recorder s \<and> u_preset s' = u_preset s"
  by (auto simp: resetLanguage_def split: option.splits if_splits sum.splits prod.splits
      dest: changeSays_fields)

lemma resetLanguage_void_fields:
  "resetLanguage_void s w = (res, s', w') \<Longrightarrow>
   u_availableLanguages s' = u_availableLanguages s \<and> u_data s' = u_data s \<and>
   u_initialized s' = u_initialized s \<and> u_disposed s' = u_disposed s \<and>
   u_recorder s' = u_recorder s \<and> u_preset s' = u_preset s"
  by (auto simp: resetLanguage_void_def split: sum.splits prod.splits dest: resetLanguage_fields)

lemma internalUpdate_fields:
  "internalUpdate d reset s w = (res, s', w') \<Longrightarrow>
   u_data s' = Some d \<and>
   u_availableLanguages s' =
     (if Object_keys d = [] then u_availableLanguages s else Some (Object_keys d)) \<and>
   u_initialized s' = u_initialized s \<and> u_disposed s' = u_disposed s \<and>
   u_recorder s' = u_recorder s \<and> u_preset s' = u_preset s"
  by (auto simp: internalUpdate_def Let_def
      split: option.splits if_splits sum.splits prod.splits
      dest!: changeSays_fields resetLanguage_void_fields)

lemma initialize_fields:
  "initialize d reset s w = (res, s', w') \<Longrightarrow>
   (u_initialized s \<longrightarrow> u_initialized s') \<and> u_disposed s' = u_disposed s \<and>
   u_recorder s' = u_recorder s \<and> u_preset s' = u_preset s"
  by (auto simp: initialize_def split: if_splits sum.splits prod.splits
      dest!: internalUpdate_fields)

lemma update_fields:
  "update d reset s w = (res, s', w') \<Longrightarrow>
   u_initialized s' = u_initialized s \<and> u_disposed s' = u_disposed s \<and>
   u_recorder s' = u_recorder s \<and> u_preset s' = u_preset s"
  by (auto simp: update_def split: if_splits dest!: internalUpdate_fields)

lemma step_flags:
  "step c (s, w) = (res, s', w') \<Longrightarrow>
   (u_initialized s \<longrightarrow> u_initialized s') \<and> (u_disposed s \<longrightarrow> u_disposed s')"
  by (cases c)
     (auto simp: returning_def dispose_def split: prod.splits sum.splits if_splits
       dest!: initialize_fields update_fields speak_fields resetLanguage_fields)

lemma run_flags:
  "run cs (s, w) = (s', w') \<Longrightarrow>
   (u_initialized s \<longrightarrow> u_initialized s') \<and> (u_disposed s \<longrightarrow> u_disposed s')"
proof (induction cs arbitrary: s w)
  case Nil
  then show ?case by simp
next
  case (Cons c cs)
  obtain res s1 w1 where st: "step c (s, w) = (res, s1, w1)"
    by (cases "step c (s, w)") auto
  with Cons.prems have "run cs (s1, w1) = (s', w')" by simp
  from Cons.IH [OF this] step_flags [OF st] show ?case by blast
qed

text \<open>After dispose of an initialized instance.\<close>

lemma step_disposed:
  assumes "u_initialized s" "u_disposed s" "u_availableLanguages s = None"
    "u_currLanguage s = None" "u_says s = JUndefined"
  shows "step c (s, w) =
     (Inl (case c of Initialize d r \<Rightarrow> AlreadyInitialized | Dispose \<Rightarrow> AlreadyDisposed
            | _ \<Rightarrow> NotReady), s, w)"
  using assms
  by (cases c)
     (simp_all add: returning_def initialize_def update_def speak_def resetLanguage_def
        dispose_def availableLanguages_def speaking_def says_def)

lemma run_disposed:
  assumes "u_initialized s" "u_disposed s" "u_availableLanguages s = None"
    "u_currLanguage s = None" "u_says s = JUndefined"
  shows "run cs (s, w) = (s, w)"
  using assms by (induction cs) (simp_all add: step_disposed)

lemma dispose_Inr:
  "dispose s = Inr s' \<Longrightarrow>
   u_disposed s' \<and> u_initialized s' = u_initialized s \<and> u_availableLanguages s' = None \<and>
   u_currLanguage s' = None \<and> u_says s' = JUndefined \<and> u_data s' = None \<and>
   u_recorder s' = None \<and> u_preset s' = None \<and> \<not> u_disposed s"
  by (auto simp: dispose_def split: if_splits)

section \<open>Evaluating the tests' instances\<close>

lemmas method_defs =
  initialize_def update_def internalUpdate_def resetLanguage_void_def resetLanguage_def
  call_preset_def remembered_def recorder_get_def changeSays_def speak_def dispose_def
  availableLanguages_def speaking_def says_def returning_def new_Langer_def
  initialized_def disposed_def

lemmas data_defs =
  fetched_def updated_def priorities_def browser_def browser_saved_def default_Langer_def
  getDefOptions_def
  recorder_def Object_keys_def get_prop_def plain_def presetLanguage_def split_first_def
  LOCAL_STORAGE_KEY_def

lemma initialized_run_eq:
  "initialized_run =
     (\<lparr> u_says = JObj [(''confirm'', JStr ''Confirm''), (''cancel'', JStr ''Cancel'')],
        u_data = Some fetched, u_availableLanguages = Some [''en'', ''zh''],
        u_currLanguage = Some ''en'', u_recorder = Some recorder,
        u_preset = Some (PresetFunction presetLanguage),
        u_initialized = True, u_disposed = False \<rparr>,
      browser_saved ''en'')"
  by (simp add: initialized_run_def method_defs data_defs)

lemma disposed_run_eq:
  "disposed_run =
     (\<lparr> u_says = JUndefined, u_data = None, u_availableLanguages = None,
        u_currLanguage = None, u_recorder = None, u_preset = None,
        u_initialized = True, u_disposed = True \<rparr>,
      browser_saved ''en'')"
  by (simp add: disposed_run_def method_defs data_defs)

section \<open>The preset resolver finds the first match\<close>

lemma some_found_first_match: "some_found avail prefs = first_match avail prefs"
  by (induction prefs) (auto simp: first_match_def)

text \<open>
  Claim C5, as the specification states it: \<open>presetLanguage\<close> returns the key matched by the
  first preference that matches exactly or after its region is stripped, and fails only
  when no preference matches. This is false when the matched key is the empty string:
  the empty key is available and is the first preference, yet the resolver fails.
\<close>

theorem presetLanguage_empty_key_counterexample:
  "presetLanguage [''''] [''''] = Inl NoMatch \<and> spec_presetLanguage [''''] [''''] = Inr ''''"
  by (simp add: presetLanguage_def spec_presetLanguage_def first_match_def)

text \<open>
  Claim C5, amended: \<open>presetLanguage\<close> is a function of the available keys and the
  preferences alone. It takes the first preference, in order, that is an available key or
  whose text before the first hyphen is one (the exact match first), and returns the key
  that matched when that key is not the empty string; it fails with \<open>NoMatch\<close> when no
  preference matches or the matched key is the empty string. For the preferences
  en-US, en, zh-TW, zh and the keys en, zh it returns en; for zh it returns zh; for
  ja it fails.
\<close>

theorem presetLanguage_first_match:
  "presetLanguage avail preferences =
     (case first_match avail preferences of
        None \<Rightarrow> Inl NoMatch
      | Some key \<Rightarrow> if key = [] then Inl NoMatch else Inr key) \<and>
   presetLanguage [''en'', ''zh''] [''en-US'', ''en'', ''zh-TW'', ''zh''] = Inr ''en'' \<and>
   presetLanguage [''en'', ''zh''] [''zh''] = Inr ''zh'' \<and>
   presetLanguage [''en'', ''zh''] [''ja''] = Inl NoMatch"
  by (simp add: presetLanguage_def some_found_first_match first_match_def split_first_def)

theorem presetLanguage_first_match_witness:
  "presetLanguage [''en'', ''zh''] [''fr-FR'', ''zh-TW'', ''en''] = Inr ''zh''"
  using presetLanguage_first_match [of "[''en'', ''zh'']" "[''fr-FR'', ''zh-TW'', ''en'']"]
  by (simp add: first_match_def split_first_def)

section \<open>The lifecycle flags and disposal\<close>

text \<open>
  Claim C6, as the specification states it: after \<open>dispose\<close> every mutating operation,
  \<open>initialize\<close> among them, fails with \<open>NotReady\<close>. This is false of \<open>initialize\<close>: on
  the instance of the tests, initialized and then disposed, it fails with
  \<open>AlreadyInitialized\<close>, since its guard tests the initialized flag alone.
\<close>

theorem initialize_after_dispose_counterexample:
  "disposed (fst disposed_run) \<and>
   fst (step (Initialize fetched False) disposed_run) = Inl AlreadyInitialized \<and>
   fst (step (Initialize fetched False) disposed_run) \<noteq> Inl NotReady"
  by (simp add: disposed_run_eq method_defs)

text \<open>
  Claim C6, amended: over every sequence of calls the initialized flag never reverts to
  false and the disposed flag never reverts to false. After \<open>dispose\<close> has succeeded on an
  initialized instance, no sequence of calls changes the instance or the world, and every
  call fails: the three accessors, \<open>update\<close>, \<open>speak\<close> and \<open>resetLanguage\<close> with
  \<open>NotReady\<close>, \<open>initialize\<close> with \<open>AlreadyInitialized\<close>, and \<open>dispose\<close> with
  \<open>AlreadyDisposed\<close>.
\<close>

theorem lifecycle_monotone_and_disposal:
  "(initialized s \<longrightarrow> initialized (fst (run cs (s, w)))) \<and>
   (disposed s \<longrightarrow> disposed (fst (run cs (s, w)))) \<and>
   (initialized s \<and> dispose s = Inr s' \<longrightarrow>
      run cs (s', w) = (s', w) \<and>
      step c (s', w) =
        (Inl (case c of Initialize d r \<Rightarrow> AlreadyInitialized | Dispose \<Rightarrow> AlreadyDisposed
               | _ \<Rightarrow> NotReady), s', w))"
proof -
  obtain s1 w1 where r: "run cs (s, w) = (s1, w1)" by (cases "run cs (s, w)") auto
  from run_flags [OF r] r have a: "(initialized s \<longrightarrow> initialized (fst (run cs (s, w)))) \<and>
   (disposed s \<longrightarrow> disposed (fst (run cs (s, w))))"
    by (simp add: initialized_def disposed_def)
  have b: "run cs (s', w) = (s', w) \<and>
      step c (s', w) =
        (Inl (case c of Initialize d r \<Rightarrow> AlreadyInitialized | Dispose \<Rightarrow> AlreadyDisposed
               | _ \<Rightarrow> NotReady), s', w)" if "initialized s" "dispose s = Inr s'"
  proof -
    from dispose_Inr [OF that(2)] that(1)
    have f: "u_initialized s'" "u_disposed s'" "u_availableLanguages s' = None"
      "u_currLanguage s' = None" "u_says s' = JUndefined"
      by (simp_all add: initialized_def)
    show ?thesis using run_disposed [OF f] step_disposed [OF f] by simp
  qed
  from a b show ?thesis by blast
qed

theorem lifecycle_monotone_and_disposal_witness:
  "initialized (fst initialized_run) \<and>
   dispose (fst initialized_run) = Inr (fst disposed_run) \<and>
   disposed (fst (run [Speak ''zh'', Update updated True, GetSays] disposed_run)) \<and>
   run [Speak ''zh'', Update updated True, GetSays] disposed_run = disposed_run \<and>
   step (Update updated False) disposed_run = (Inl NotReady, disposed_run)"
proof -
  have h: "initialized (fst initialized_run) \<and>
      dispose (fst initialized_run) = Inr (fst disposed_run)"
    by (simp add: initialized_run_eq disposed_run_eq method_defs)
  have d: "disposed (fst disposed_run)"
    by (simp add: disposed_run_eq method_defs)
  from h d
    lifecycle_monotone_and_disposal [of "fst initialized_run"
      "[Speak ''zh'', Update updated True, GetSays]" "snd disposed_run" "fst disposed_run"
      "Update updated False"]
    lifecycle_monotone_and_disposal [of "fst disposed_run"
      "[Speak ''zh'', Update updated True, GetSays]" "snd disposed_run" "fst disposed_run"
      "Update updated False"]
  show ?thesis by simp
qed

section \<open>Speaking a language that is not available\<close>

lemma internalUpdate_Inr_keys:
  "internalUpdate d reset s w = (Inr u, s', w') \<Longrightarrow> Object_keys d \<noteq> []"
  by (auto simp: internalUpdate_def Let_def split: if_splits)

lemma internalUpdate_Inr_available:
  assumes "internalUpdate d reset s w = (Inr u, s', w')"
  shows "u_availableLanguages s' = Some (Object_keys d)"
  using internalUpdate_fields [OF assms] internalUpdate_Inr_keys [OF assms] by simp

lemma initialize_available:
  assumes "initialize d reset s w = (res, s', w')" and "\<not> u_initialized s"
    and "u_initialized s'"
  shows "u_availableLanguages s' = Some (Object_keys d)"
proof -
  obtain r1 s1 w1 where i: "internalUpdate d reset s w = (r1, s1, w1)"
    by (cases "internalUpdate d reset s w") auto
  show ?thesis
  proof (cases r1)
    case (Inl e)
    with i assms internalUpdate_fields [OF i] show ?thesis
      by (simp add: initialize_def)
  next
    case (Inr u)
    with i assms internalUpdate_Inr_available [of d reset s w u s1 w1] show ?thesis
      by (auto simp: initialize_def)
  qed
qed

lemma step_available:
  assumes "step c (s, w) = (res, s', w')"
    and "u_initialized s \<longrightarrow> u_disposed s \<or> u_availableLanguages s \<noteq> None"
  shows "u_initialized s' \<longrightarrow> u_disposed s' \<or> u_availableLanguages s' \<noteq> None"
proof (cases c)
  case (Initialize d reset)
  with assms(1) obtain r1 where i: "initialize d reset s w = (r1, s', w')"
    by (auto simp: returning_def split: prod.splits)
  show ?thesis
  proof (cases "u_initialized s")
    case True
    with i have "s' = s" by (simp add: initialize_def)
    with assms(2) show ?thesis by simp
  next
    case False
    from initialize_available [OF i False] show ?thesis by simp
  qed
next
  case (Update d reset)
  with assms show ?thesis
    by (auto simp: returning_def update_def split: prod.splits if_splits
        dest!: internalUpdate_fields)
next
  case (Speak k)
  with assms show ?thesis
    by (auto simp: returning_def split: prod.splits dest!: speak_fields)
next
  case ResetLanguage
  with assms show ?thesis
    by (auto simp: returning_def split: prod.splits dest!: resetLanguage_fields)
next
  case Dispose
  with assms show ?thesis
    by (auto simp: dispose_def split: if_splits)
qed (use assms in auto)

lemma reachable_available:
  "reachable s \<Longrightarrow> u_initialized s \<longrightarrow> u_disposed s \<or> u_availableLanguages s \<noteq> None"
proof (induction rule: reachable.induct)
  case (constructed r p)
  show ?case by (simp add: new_Langer_def)
next
  case (called s c w)
  obtain res s' w' where st: "step c (s, w) = (res, s', w')"
    by (cases "step c (s, w)") auto
  from step_available [OF st called.IH] st show ?case by simp
qed

lemma reachable_initialized_run: "reachable (fst initialized_run)"
proof -
  have "reachable (fst (snd (step (Initialize fetched False) (default_Langer, browser))))"
    unfolding default_Langer_def by (rule reachable.called [OF reachable.constructed])
  then show ?thesis by (simp add: initialized_run_def)
qed

text \<open>
  Claim C7: on every initialized instance that is not disposed, whatever calls led to it,
  the accessor \<open>availableLanguages\<close> returns a list, and \<open>speak\<close> of a key that is not in
  that list fails with \<open>LanguageUnavailable\<close>, whose message lists the available keys
  joined by commas, and returns the instance and the world as they were: the current
  language, the active translations and the available languages are unchanged.
\<close>

theorem speak_unavailable:
  assumes "reachable s" and "initialized s" and "\<not> disposed s"
  shows "\<exists>langs. availableLanguages s = Inr langs \<and>
     (\<forall>language. language \<notin> set langs \<longrightarrow>
        speak language s w = (Inl (LanguageUnavailable language langs), s, w) \<and>
        message (LanguageUnavailable language langs) =
          ''[langer] Cannot speak the '' @ dquote @ language @ dquote @
          '' language that are not on the available languages('' @ join_comma langs @ '').'')"
proof -
  from reachable_available [OF assms(1)] assms(2,3)
  obtain langs where l: "u_availableLanguages s = Some langs"
    by (auto simp: initialized_def disposed_def)
  then show ?thesis
    by (simp add: availableLanguages_def speak_def)
qed

theorem speak_unavailable_witness:
  "reachable (fst initialized_run) \<and> initialized (fst initialized_run) \<and>
   \<not> disposed (fst initialized_run) \<and>
   availableLanguages (fst initialized_run) = Inr [''en'', ''zh''] \<and>
   ''ja'' \<notin> set [''en'', ''zh''] \<and>
   speak ''ja'' (fst initialized_run) (snd initialized_run) =
     (Inl (LanguageUnavailable ''ja'' [''en'', ''zh'']), initialized_run) \<and>
   message (LanguageUnavailable ''ja'' [''en'', ''zh'']) =
     ''[langer] Cannot speak the '' @ dquote @ ''ja'' @ dquote @
     '' language that are not on the available languages(en,zh).''"
proof -
  have f: "initialized (fst initialized_run)" "\<not> disposed (fst initialized_run)"
    by (simp_all add: initialized_run_eq initialized_def disposed_def)
  have a: "availableLanguages (fst initialized_run) = Inr [''en'', ''zh'']"
    by (simp add: initialized_run_eq availableLanguages_def)
  from speak_unavailable [OF reachable_initialized_run f, of "snd initialized_run"] a
  have "speak ''ja'' (fst initialized_run) (snd initialized_run) =
     (Inl (LanguageUnavailable ''ja'' [''en'', ''zh'']), initialized_run)"
    by auto
  with reachable_initialized_run f a show ?thesis by simp
qed

section \<open>Presence is tested by truthiness\<close>

text \<open>
  Claim C9: on an initialized instance that is not disposed, a successful \<open>speak\<close> of a
  key whose payload in the dictionary is falsy (the empty string, 0, false, null, or no
  value at all) leaves the instance initialized and not disposed, with that key current
  and that payload active, and the accessor \<open>says\<close> then throws the \<open>NotReady\<close> error
  with the message of an instance that is not initialized, instead of returning the
  payload.
\<close>

theorem says_falsy_payload:
  assumes "initialized s" and "\<not> disposed s" and "u_data s = Some d"
    and "speak k s w = (Inr (), s', w')"
    and "\<not> truthy (get_prop d k)"
  shows "initialized s' \<and> \<not> disposed s' \<and> u_data s' = Some d \<and>
    u_currLanguage s' = Some k \<and> u_says s' = get_prop d k \<and>
    says s' = Inl NotReady \<and>
    message NotReady =
      ''[langer] Invalid operation. Not initialized yet, failed to initialize or has been disposed.'' \<and>
    \<not> truthy (JStr '''') \<and> \<not> truthy (JNum 0) \<and> \<not> truthy (JBool False) \<and> \<not> truthy JNull"
proof -
  from assms(4) obtain langs where c: "changeSays k s w = (Inr (), s', w')"
    by (auto simp: speak_def split: option.splits if_splits)
  from changeSays_Inr [OF c] assms(3)
  have s': "s' = s\<lparr>u_currLanguage := Some k, u_says := get_prop d k\<rparr>" by auto
  with assms(1,2,3,5) show ?thesis
    by (simp add: initialized_def disposed_def says_def)
qed

theorem says_falsy_payload_witness:
  "says (fst (snd (speak ''zh''
      (fst (run [Initialize (plain [(''en'', JStr ''Hello''), (''zh'', JStr '''')]) False]
         (default_Langer, browser)))
      (browser_saved ''en'')))) = Inl NotReady \<and>
   initialized (fst (snd (speak ''zh''
      (fst (run [Initialize (plain [(''en'', JStr ''Hello''), (''zh'', JStr '''')]) False]
         (default_Langer, browser)))
      (browser_saved ''en''))))"
proof -
  let ?d = "plain [(''en'', JStr ''Hello''), (''zh'', JStr '''')]"
  let ?s = "fst (run [Initialize ?d False] (default_Langer, browser))"
  have s: "?s = \<lparr> u_says = JStr ''Hello'', u_data = Some ?d,
        u_availableLanguages = Some [''en'', ''zh''],
        u_currLanguage = Some ''en'', u_recorder = Some recorder,
        u_preset = Some (PresetFunction presetLanguage),
        u_initialized = True, u_disposed = False \<rparr>"
    by (simp add: method_defs data_defs)
  have h: "initialized ?s" "\<not> disposed ?s" "u_data ?s = Some ?d"
    by (simp_all only: s) (simp_all add: initialized_def disposed_def)
  have k: "\<not> truthy (get_prop ?d ''zh'')" by (simp add: get_prop_def plain_def)
  obtain s' w' where sp: "speak ''zh'' ?s (browser_saved ''en'') = (Inr (), s', w')"
    by (simp only: s) (simp add: method_defs data_defs)
  from says_falsy_payload [OF h sp k] sp show ?thesis by simp
qed

section \<open>A failed update keeps the new dictionary\<close>



text \<open>
  The exclusion is needed: a previous key that names an inherited member, such as
  constructor, reads that member from the empty object, and \<open>says\<close> returns it.
\<close>

lemma get_prop_empty_constructor:
  "get_prop (plain []) ''constructor'' = JFunction ''Object'' \<and>
   truthy (get_prop (plain []) ''constructor'')"
  by (simp add: get_prop_def plain_def Object_prototype_def)

section \<open>The switch of language and the persistence write\<close>

lemma quota_run_eq:
  "quota_run =
     (\<lparr> u_says = JObj [(''confirm'', JStr ''Confirm''), (''cancel'', JStr ''Cancel'')],
        u_data = Some fetched, u_availableLanguages = Some [''en'', ''zh''],
        u_currLanguage = Some ''en'', u_recorder = Some quota_recorder,
        u_preset = Some (PresetString ''en''),
        u_initialized = True, u_disposed = False \<rparr>,
      \<lparr> backing = 0, navigator_languages = priorities \<rparr>)"
  by (simp add: quota_run_def method_defs quota_recorder_def fetched_def Object_keys_def
      get_prop_def plain_def)

lemma speak_Inr:
  assumes "speak k s w = (Inr u, s', w')"
  shows "\<exists>r b d. u_recorder s = Some r \<and> set_rec r k (backing w) = (Inr (), b) \<and>
     u_data s = Some d \<and>
     s' = s\<lparr>u_currLanguage := Some k, u_says := get_prop d k\<rparr> \<and> w' = w\<lparr>backing := b\<rparr>"
proof -
  from assms have "changeSays k s w = (Inr u, s', w')"
    by (auto simp: speak_def split: option.splits if_splits)
  from changeSays_Inr [OF this] show ?thesis .
qed

lemma speak_write_fails:
  assumes "availableLanguages s = Inr langs" and "k \<in> set langs"
    and "u_recorder s = Some r" and "set_rec r k (backing w) = (Inl e, b)"
  shows "speak k s w = (Inl e, s\<lparr>u_currLanguage := Some k\<rparr>, w\<lparr>backing := b\<rparr>)"
  using assms
  by (auto simp: availableLanguages_def speak_def changeSays_fail split: option.splits)

lemma resetLanguage_Inr_speak:
  assumes "resetLanguage s w = (Inr k, s', w')"
  shows "speak k s w = (Inr (), s', w')"
  using assms
  by (auto simp: resetLanguage_def speak_def
      split: option.splits sum.splits if_splits prod.splits)

lemma resetLanguage_write_fails:
  assumes "availableLanguages s = Inr langs" and "call_preset s langs w = Inr k"
    and "k \<in> set langs"
    and "u_recorder s = Some r" and "set_rec r k (backing w) = (Inl e, b)"
  shows "resetLanguage s w = (Inl e, s\<lparr>u_currLanguage := Some k\<rparr>, w\<lparr>backing := b\<rparr>)"
  using assms
  by (auto simp: availableLanguages_def resetLanguage_def changeSays_fail split: option.splits)

text \<open>
  Claim C2, as the specification states it: the current language and the active
  translations change together, and when the persistence write fails the state in memory
  is already fully switched to the new language. This is false: with a recorder whose
  write throws, \<open>speak\<close> of zh on an instance speaking en fails with the recorder's
  error and leaves the current language zh while \<open>says\<close> still returns the payload of
  en, which is not the payload of zh.
\<close>

theorem speak_failed_write_counterexample:
  "fst (speak ''zh'' (fst quota_run) (snd quota_run)) = Inl (External ''QuotaExceededError'') \<and>
   speaking (fst (snd (speak ''zh'' (fst quota_run) (snd quota_run)))) = Inr ''zh'' \<and>
   says (fst (snd (speak ''zh'' (fst quota_run) (snd quota_run)))) = Inr (get_prop fetched ''en'') \<and>
   get_prop fetched ''en'' \<noteq> get_prop fetched ''zh''"
  by (simp add: quota_run_eq method_defs quota_recorder_def fetched_def get_prop_def
      plain_def)

text \<open>
  Claim C2, amended: a successful \<open>speak\<close> of a key has performed the recorder's write of
  that key on the store, and leaves the instance as it was but for the current language,
  which is the key, and the active translations, which are the dictionary's payload for
  the key. A successful \<open>resetLanguage\<close> returning a key is the same switch: it leaves what
  \<open>speak\<close> of that key leaves. When the key is available and the recorder's write
  throws, \<open>speak\<close> (and \<open>resetLanguage\<close>, when the preset gives that key) fails with the
  recorder's error, with the current language already set to the key and every other
  field, the active translations among them, as before the call.
\<close>

theorem speak_switch:
  "(speak k s w = (Inr (), s', w') \<longrightarrow>
      (\<exists>r b d. u_recorder s = Some r \<and> set_rec r k (backing w) = (Inr (), b) \<and>
         u_data s = Some d \<and>
         s' = s\<lparr>u_currLanguage := Some k, u_says := get_prop d k\<rparr> \<and>
         w' = w\<lparr>backing := b\<rparr>)) \<and>
   (resetLanguage s w = (Inr k, s', w') \<longrightarrow> speak k s w = (Inr (), s', w')) \<and>
   (availableLanguages s = Inr langs \<and> k \<in> set langs \<and> u_recorder s = Some r' \<and>
    set_rec r' k (backing w) = (Inl e, b') \<longrightarrow>
      speak k s w = (Inl e, s\<lparr>u_currLanguage := Some k\<rparr>, w\<lparr>backing := b'\<rparr>) \<and>
      (call_preset s langs w = Inr k \<longrightarrow>
         resetLanguage s w = (Inl e, s\<lparr>u_currLanguage := Some k\<rparr>, w\<lparr>backing := b'\<rparr>)))"
  using speak_Inr [of k s w "()" s' w'] resetLanguage_Inr_speak [of s w k s' w']
    speak_write_fails [of s langs k r' w e b']
    resetLanguage_write_fails [of s langs w k r' e b']
  by blast

theorem speak_switch_witness:
  "speak ''zh'' (fst initialized_run) (snd initialized_run) =
     (Inr (),
      (fst initialized_run)\<lparr>u_currLanguage := Some ''zh'', u_says := get_prop fetched ''zh''\<rparr>,
      browser_saved ''zh'') \<and>
   speak ''zh'' (fst quota_run) (snd quota_run) =
     (Inl (External ''QuotaExceededError''), (fst quota_run)\<lparr>u_currLanguage := Some ''zh''\<rparr>,
      snd quota_run)"
proof -
  obtain s' w' where sp: "speak ''zh'' (fst initialized_run) (snd initialized_run) = (Inr (), s', w')"
    by (simp add: initialized_run_eq method_defs data_defs)
  have d: "u_data (fst initialized_run) = Some fetched"
    "u_recorder (fst initialized_run) = Some recorder"
    "set_rec recorder ''zh'' (backing (snd initialized_run)) = (Inr (), backing (browser_saved ''zh''))"
    "(snd initialized_run)\<lparr>backing := backing (browser_saved ''zh'')\<rparr> = browser_saved ''zh''"
    by (simp_all add: initialized_run_eq recorder_def browser_saved_def)
  have q: "availableLanguages (fst quota_run) = Inr [''en'', ''zh'']"
    "''zh'' \<in> set [''en'', ''zh'']" "u_recorder (fst quota_run) = Some quota_recorder"
    "set_rec quota_recorder ''zh'' (backing (snd quota_run)) = (Inl (External ''QuotaExceededError''), 0)"
    "(snd quota_run)\<lparr>backing := 0\<rparr> = snd quota_run"
    by (simp_all add: quota_run_eq availableLanguages_def quota_recorder_def)
  from speak_switch [of "''zh''" "fst initialized_run" "snd initialized_run" s' w']
    sp d
  have a: "speak ''zh'' (fst initialized_run) (snd initialized_run) =
     (Inr (),
      (fst initialized_run)\<lparr>u_currLanguage := Some ''zh'', u_says := get_prop fetched ''zh''\<rparr>,
      browser_saved ''zh'')"
    by auto
  from speak_switch [of "''zh''" "fst quota_run" "snd quota_run" _ _ "[''en'', ''zh'']"
      quota_recorder "External ''QuotaExceededError''" 0] q
  have b: "speak ''zh'' (fst quota_run) (snd quota_run) =
     (Inl (External ''QuotaExceededError''), (fst quota_run)\<lparr>u_currLanguage := Some ''zh''\<rparr>,
      snd quota_run)"
    by simp
  from a b show ?thesis by simp
qed

section \<open>The remembered language is not checked against the dictionary\<close>

lemma speaking_ja_run_eq:
  "speaking_ja_run =
     (\<lparr> u_says = JObj [(''confirm'', JStr ''ja-confirm''), (''enter'', JStr ''ja-enter'')],
        u_data = Some updated, u_availableLanguages = Some [''en'', ''zh'', ''ja''],
        u_currLanguage = Some ''ja'', u_recorder = Some recorder,
        u_preset = Some (PresetFunction presetLanguage),
        u_initialized = True, u_disposed = False \<rparr>,
      browser_saved ''ja'')"
  by (simp add: speaking_ja_run_def method_defs data_defs)

lemma speaking_Inr: "speaking s = Inr k \<Longrightarrow> u_currLanguage s = Some k \<and> k \<noteq> []"
  by (auto simp: speaking_def split: option.splits if_splits)

lemma resetLanguage_Inr_available:
  assumes "resetLanguage s w = (Inr lang, s', w')"
  shows "\<exists>langs. u_availableLanguages s' = Some langs \<and> lang \<in> set langs \<and>
     u_currLanguage s' = Some lang"
  using assms
  by (auto simp: resetLanguage_def split: option.splits sum.splits if_splits prod.splits
      dest!: changeSays_fields)

text \<open>
  Claim C1 says that after every successful \<open>initialize\<close>, \<open>update\<close>, \<open>speak\<close> or
  \<open>resetLanguage\<close> the current language is one of the available languages, also when
  the recorder returns a remembered key that the dictionary does not have. The code does
  otherwise. \<open>speak\<close> and \<open>resetLanguage\<close> test the key against the available languages
  before they switch, but \<open>internalUpdate\<close> switches to the remembered key untested:
  when the recorder returns a non-empty key that is not in the non-empty dictionary and
  takes the write of it, \<open>initialize\<close> succeeds and leaves an initialized instance whose
  \<open>speaking\<close> is that key, outside \<open>availableLanguages\<close>. Its active payload is what a
  read of that key finds in the dictionary; when the key names no inherited member
  either, that is \<^verbatim>\<open>undefined\<close> and \<open>says\<close> throws \<open>NotReady\<close>.
\<close>

theorem initialize_remembered_unavailable:
  assumes "Object_keys d \<noteq> []" and "get_rec r (backing w) = (Inr (Some k), b1)"
    and "k \<noteq> []" and "k \<notin> set (Object_keys d)" and "set_rec r k b1 = (Inr (), b2)"
  shows "\<exists>s'. initialize d False (new_Langer r p) w = (Inr (), s', w\<lparr>backing := b2\<rparr>) \<and>
     initialized s' \<and> \<not> disposed s' \<and> speaking s' = Inr k \<and>
     availableLanguages s' = Inr (Object_keys d) \<and> k \<notin> set (Object_keys d) \<and>
     u_says s' = get_prop d k \<and>
     (k \<notin> set (map fst (other d)) \<longrightarrow> says s' = Inl NotReady)"
  using assms
  by (simp add: method_defs get_prop_absent)

theorem initialize_remembered_unavailable_witness:
  "fst (initialize fetched False default_Langer (browser_saved ''fr'')) = Inr () \<and>
   speaking (fst (snd (initialize fetched False default_Langer (browser_saved ''fr'')))) = Inr ''fr'' \<and>
   availableLanguages (fst (snd (initialize fetched False default_Langer (browser_saved ''fr''))))
     = Inr [''en'', ''zh''] \<and>
   says (fst (snd (initialize fetched False default_Langer (browser_saved ''fr'')))) = Inl NotReady"
proof -
  have h: "Object_keys fetched \<noteq> []"
    "get_rec recorder (backing (browser_saved ''fr'')) = (Inr (Some ''fr''), backing (browser_saved ''fr''))"
    "''fr'' \<noteq> []" "''fr'' \<notin> set (Object_keys fetched)"
    "set_rec recorder ''fr'' (backing (browser_saved ''fr'')) = (Inr (), backing (browser_saved ''fr''))"
    by (simp_all add: data_defs)
  have k: "Object_keys fetched = [''en'', ''zh'']" by (simp add: data_defs)
  have o: "''fr'' \<notin> set (map fst (other fetched))"
    by (simp add: fetched_def plain_def Object_prototype_def)
  from initialize_remembered_unavailable [OF h, of "PresetFunction presetLanguage"] k o
  show ?thesis by (auto simp: default_Langer_def getDefOptions_def)
qed

text \<open>
  What \<open>update\<close> does in the two other cases: it stays on the current key when the new
  dictionary has it, with the new payload, and a forced reset is \<open>resetLanguage\<close>.
\<close>

lemma update_keeps_available_language:
  assumes "initialized s" and "\<not> disposed s" and "speaking s = Inr k"
    and "k \<in> set (Object_keys d)"
    and "u_recorder s = Some r" and "set_rec r k (backing w) = (Inr (), b)"
  shows "update d False s w =
     (Inr (), s\<lparr>u_data := Some d, u_availableLanguages := Some (Object_keys d),
                u_currLanguage := Some k, u_says := get_prop d k\<rparr>, w\<lparr>backing := b\<rparr>)"
proof -
  from assms(4) have "Object_keys d \<noteq> []" by auto
  with assms speaking_Inr [OF assms(3)] show ?thesis by (simp add: method_defs)
qed

lemma update_forced_reset:
  assumes "initialized s" and "\<not> disposed s" and "Object_keys d \<noteq> []"
  shows "update d True s w =
     resetLanguage_void (s\<lparr>u_data := Some d, u_availableLanguages := Some (Object_keys d)\<rparr>) w"
  using assms by (simp add: update_def internalUpdate_def initialized_def disposed_def)

text \<open>
  Claim C4 says that \<open>update\<close> resolves a fresh language, as a reset does, when the
  current key is absent from the new dictionary. The code does otherwise, by the same
  missing test: on an initialized instance that is not disposed and speaks a key that
  the new, non-empty dictionary does not have, \<open>update\<close> without a forced reset succeeds,
  when the recorder takes the write, and stays on that key: \<open>speaking\<close> returns it,
  outside \<open>availableLanguages\<close>. The active payload is what a read of that key finds in
  the new dictionary; when the key names no inherited member either, that is
  \<^verbatim>\<open>undefined\<close> and \<open>says\<close> throws \<open>NotReady\<close>. A reset would have left an available
  key (\<open>resetLanguage_Inr_available\<close>).
\<close>

theorem update_keeps_unavailable_language:
  assumes "initialized s" and "\<not> disposed s" and "speaking s = Inr k"
    and "Object_keys d \<noteq> []" and "k \<notin> set (Object_keys d)"
    and "u_recorder s = Some r" and "set_rec r k (backing w) = (Inr (), b)"
  shows "\<exists>s'. update d False s w = (Inr (), s', w\<lparr>backing := b\<rparr>) \<and>
     initialized s' \<and> \<not> disposed s' \<and> speaking s' = Inr k \<and>
     availableLanguages s' = Inr (Object_keys d) \<and> k \<notin> set (Object_keys d) \<and>
     u_says s' = get_prop d k \<and>
     (k \<notin> set (map fst (other d)) \<longrightarrow> says s' = Inl NotReady)"
  using assms speaking_Inr [OF assms(3)]
  by (simp add: method_defs get_prop_absent)

theorem update_keeps_unavailable_language_witness:
  "fst (update fetched False (fst speaking_ja_run) (snd speaking_ja_run)) = Inr () \<and>
   speaking (fst (snd (update fetched False (fst speaking_ja_run) (snd speaking_ja_run)))) = Inr ''ja'' \<and>
   availableLanguages (fst (snd (update fetched False (fst speaking_ja_run) (snd speaking_ja_run))))
     = Inr [''en'', ''zh''] \<and>
   says (fst (snd (update fetched False (fst speaking_ja_run) (snd speaking_ja_run)))) = Inl NotReady"
proof -
  have h: "initialized (fst speaking_ja_run)" "\<not> disposed (fst speaking_ja_run)"
    "speaking (fst speaking_ja_run) = Inr ''ja''"
    "Object_keys fetched \<noteq> []" "''ja'' \<notin> set (Object_keys fetched)"
    "u_recorder (fst speaking_ja_run) = Some recorder"
    "set_rec recorder ''ja'' (backing (snd speaking_ja_run)) = (Inr (), backing (snd speaking_ja_run))"
    by (simp_all add: speaking_ja_run_eq method_defs data_defs)
  have k: "Object_keys fetched = [''en'', ''zh'']" by (simp add: data_defs)
  have o: "''ja'' \<notin> set (map fst (other fetched))"
    by (simp add: fetched_def plain_def Object_prototype_def)
  from update_keeps_unavailable_language [OF h] k o
  show ?thesis by auto
qed

text \<open>
  A remembered key that names an inherited member is outside the available languages all
  the same, and \<open>says\<close> then returns the inherited member.
\<close>

lemma initialize_remembered_inherited:
  "speaking (fst (snd (initialize fetched False default_Langer (browser_saved ''toString'')))) =
     Inr ''toString'' \<and>
   availableLanguages (fst (snd (initialize fetched False default_Langer
      (browser_saved ''toString'')))) = Inr [''en'', ''zh''] \<and>
   says (fst (snd (initialize fetched False default_Langer (browser_saved ''toString'')))) =
     Inr (JFunction ''toString'')"
  by (simp add: method_defs data_defs Object_prototype_def)

section \<open>A failed initialize leaves the available languages behind\<close>

text \<open>
  Claim C3 says that a failed \<open>initialize\<close> leaves the instance as it was before the
  call, the accessors failing as before. The code does otherwise when the failure comes
  after the keys have been stored: with a fixed preset that is not a key of the non-empty
  dictionary and nothing remembered, \<open>initialize\<close> fails with \<open>PresetUnavailable\<close> and
  leaves the instance not initialized, but \<open>availableLanguages\<close>, which threw \<open>NotReady\<close>
  before the call, now returns the dictionary's keys.
\<close>

theorem failed_initialize_keeps_languages:
  assumes "Object_keys d \<noteq> []" and "lang \<notin> set (Object_keys d)"
    and "get_rec r (backing w) = (Inr None, b)"
  shows "availableLanguages (new_Langer r (PresetString lang)) = Inl NotReady \<and>
    (\<exists>s'. initialize d False (new_Langer r (PresetString lang)) w =
        (Inl (PresetUnavailable lang (Object_keys d)), s', w\<lparr>backing := b\<rparr>) \<and>
      \<not> initialized s' \<and> availableLanguages s' = Inr (Object_keys d))"
  using assms
  by (simp add: method_defs)

theorem failed_initialize_keeps_languages_witness:
  "availableLanguages (new_Langer recorder (PresetString ''ja'')) = Inl NotReady \<and>
   fst (initialize fetched False (new_Langer recorder (PresetString ''ja'')) browser) =
     Inl (PresetUnavailable ''ja'' [''en'', ''zh'']) \<and>
   \<not> initialized (fst (snd (initialize fetched False (new_Langer recorder (PresetString ''ja'')) browser))) \<and>
   availableLanguages (fst (snd (initialize fetched False (new_Langer recorder (PresetString ''ja'')) browser)))
     = Inr [''en'', ''zh'']"
proof -
  have h: "Object_keys fetched \<noteq> []" "''ja'' \<notin> set (Object_keys fetched)"
    "get_rec recorder (backing browser) = (Inr None, backing browser)"
    by (simp_all add: data_defs)
  have k: "Object_keys fetched = [''en'', ''zh'']" by (simp add: data_defs)
  from failed_initialize_keeps_languages [OF h] k
  show ?thesis by auto
qed

section \<open>Remembering and resetting\<close>

lemma initialize_restores:
  assumes "get_rec r (backing w) = (Inr (Some k), b1)" and "set_rec r k b1 = (Inr (), b2)"
    and "k \<noteq> []" and "k \<in> set (Object_keys d)"
  shows "\<exists>s'. initialize d False (new_Langer r p) w = (Inr (), s', w\<lparr>backing := b2\<rparr>) \<and>
     initialized s' \<and> speaking s' = Inr k \<and> u_says s' = get_prop d k \<and>
     availableLanguages s' = Inr (Object_keys d)"
proof -
  from assms(4) have "Object_keys d \<noteq> []" by auto
  with assms show ?thesis by (simp add: method_defs)
qed

lemma initialize_reset_get_rec:
  "initialize d True (new_Langer (r\<lparr>get_rec := g\<rparr>) p) w =
     (case initialize d True (new_Langer r p) w of
        (res, s', w') \<Rightarrow> (res, s'\<lparr>u_recorder := Some (r\<lparr>get_rec := g\<rparr>)\<rparr>, w'))"
  by (simp add: method_defs Let_def split: Preset.splits sum.splits prod.splits)

lemma initialize_reset_fixed_Inr:
  assumes "initialize d True (new_Langer r (PresetString l)) w = (Inr (), s', w')"
  shows "l \<in> set (Object_keys d) \<and> u_currLanguage s' = Some l \<and> u_says s' = get_prop d l"
  using assms
  by (auto simp: initialize_def internalUpdate_def resetLanguage_void_def resetLanguage_def
      Let_def new_Langer_def call_preset_def
      split: if_splits sum.splits prod.splits option.splits dest!: changeSays_Inr)

lemma initialize_reset_function_Inr:
  assumes "initialize d True (new_Langer r (PresetFunction f)) w = (Inr (), s', w')"
  shows "\<exists>lang. f (Object_keys d) (navigator_languages w) = Inr lang \<and>
     lang \<in> set (Object_keys d) \<and> u_currLanguage s' = Some lang \<and>
     u_says s' = get_prop d lang"
  using assms
  by (auto simp: initialize_def internalUpdate_def resetLanguage_void_def resetLanguage_def
      Let_def new_Langer_def call_preset_def
      split: if_splits sum.splits prod.splits option.splits dest!: changeSays_Inr)

lemma initialize_reset_fixed:
  assumes "l \<in> set (Object_keys d)" and "set_rec r l (backing w) = (Inr (), b)"
  shows "initialize d True (new_Langer r (PresetString l)) w =
     (Inr (),
      (new_Langer r (PresetString l))
        \<lparr>u_data := Some d, u_availableLanguages := Some (Object_keys d),
         u_currLanguage := Some l, u_says := get_prop d l, u_initialized := True\<rparr>,
      w\<lparr>backing := b\<rparr>)"
proof -
  from assms(1) have "Object_keys d \<noteq> []" by auto
  with assms show ?thesis by (simp add: method_defs)
qed

lemma initialize_reset_function:
  assumes "f (Object_keys d) (navigator_languages w) = Inr l"
    and "l \<in> set (Object_keys d)" and "set_rec r l (backing w) = (Inr (), b)"
  shows "initialize d True (new_Langer r (PresetFunction f)) w =
     (Inr (),
      (new_Langer r (PresetFunction f))
        \<lparr>u_data := Some d, u_availableLanguages := Some (Object_keys d),
         u_currLanguage := Some l, u_says := get_prop d l, u_initialized := True\<rparr>,
      w\<lparr>backing := b\<rparr>)"
proof -
  from assms(2) have "Object_keys d \<noteq> []" by auto
  with assms show ?thesis by (simp add: method_defs)
qed

text \<open>
  Claim C8: let \<open>speak\<close> of a non-empty key (zh in the specification) succeed on an
  instance whose recorder always takes a write and then returns what was written. A fresh
  instance constructed with that recorder over the store the call left, and initialized
  without a forced reset with a dictionary that has the key, is initialized and speaks
  that key, with the dictionary's payload for it. With a forced reset, \<open>initialize\<close> on a
  fresh instance does not depend on what the recorder's \<^verbatim>\<open>get\<close> would return (replacing
  \<^verbatim>\<open>get\<close> by any function changes nothing but the recorder stored in the instance), and
  the language comes from the preset: with a fixed preset, \<open>initialize\<close> succeeds on that
  key when it is available and the recorder takes the write, and whenever it succeeds
  the current language is that key; with a preset function, it succeeds on the key the
  function returns for the dictionary's keys and the navigator languages, when that key
  is available and the recorder takes the write, and whenever it succeeds the current
  language is the key the function returned.
\<close>

theorem remembered_language_round_trip:
  "(speak k a w = (Inr (), a', w') \<and> u_recorder a = Some r \<and>
    (\<forall>lang b. \<exists>b'. set_rec r lang b = (Inr (), b') \<and> get_rec r b' = (Inr (Some lang), b')) \<and>
    k \<noteq> [] \<and> k \<in> set (Object_keys d) \<longrightarrow>
      (\<exists>s' w''. initialize d False (new_Langer r p) w' = (Inr (), s', w'') \<and>
         initialized s' \<and> speaking s' = Inr k \<and> u_says s' = get_prop d k \<and>
         availableLanguages s' = Inr (Object_keys d))) \<and>
   initialize d True (new_Langer (r\<lparr>get_rec := g\<rparr>) p) w =
     (case initialize d True (new_Langer r p) w of
        (res, s', w') \<Rightarrow> (res, s'\<lparr>u_recorder := Some (r\<lparr>get_rec := g\<rparr>)\<rparr>, w')) \<and>
   (initialize d True (new_Langer r (PresetString l)) w = (Inr (), s2, w2) \<longrightarrow>
      l \<in> set (Object_keys d) \<and> u_currLanguage s2 = Some l \<and> u_says s2 = get_prop d l) \<and>
   (initialize d True (new_Langer r (PresetFunction f)) w = (Inr (), s3, w3) \<longrightarrow>
      (\<exists>lang. f (Object_keys d) (navigator_languages w) = Inr lang \<and>
         lang \<in> set (Object_keys d) \<and> u_currLanguage s3 = Some lang \<and>
         u_says s3 = get_prop d lang)) \<and>
   (l \<in> set (Object_keys d) \<and> set_rec r l (backing w) = (Inr (), b) \<longrightarrow>
      initialize d True (new_Langer r (PresetString l)) w =
        (Inr (),
         (new_Langer r (PresetString l))
           \<lparr>u_data := Some d, u_availableLanguages := Some (Object_keys d),
            u_currLanguage := Some l, u_says := get_prop d l, u_initialized := True\<rparr>,
         w\<lparr>backing := b\<rparr>)) \<and>
   (f (Object_keys d) (navigator_languages w) = Inr l \<and> l \<in> set (Object_keys d) \<and>
    set_rec r l (backing w) = (Inr (), b) \<longrightarrow>
      initialize d True (new_Langer r (PresetFunction f)) w =
        (Inr (),
         (new_Langer r (PresetFunction f))
           \<lparr>u_data := Some d, u_availableLanguages := Some (Object_keys d),
            u_currLanguage := Some l, u_says := get_prop d l, u_initialized := True\<rparr>,
         w\<lparr>backing := b\<rparr>))"
proof -
  have a: "\<exists>s' w''. initialize d False (new_Langer r p) w' = (Inr (), s', w'') \<and>
         initialized s' \<and> speaking s' = Inr k \<and> u_says s' = get_prop d k \<and>
         availableLanguages s' = Inr (Object_keys d)"
    if sp: "speak k a w = (Inr (), a', w')" and rc: "u_recorder a = Some r"
      and ct: "\<forall>lang b. \<exists>b'. set_rec r lang b = (Inr (), b') \<and> get_rec r b' = (Inr (Some lang), b')"
      and k: "k \<noteq> []" "k \<in> set (Object_keys d)"
  proof -
    from speak_Inr [OF sp] rc obtain b where
      b: "set_rec r k (backing w) = (Inr (), b)" "w' = w\<lparr>backing := b\<rparr>" by auto
    from ct b(1) have g: "get_rec r b = (Inr (Some k), b)" by (metis prod.inject)
    from ct obtain b2 where s2: "set_rec r k b = (Inr (), b2)" by blast
    from b(2) g have g': "get_rec r (backing w') = (Inr (Some k), b)" by simp
    from initialize_restores [OF g' s2 k, of p] show ?thesis by blast
  qed
  have c1: "speak k a w = (Inr (), a', w') \<and> u_recorder a = Some r \<and>
    (\<forall>lang b. \<exists>b'. set_rec r lang b = (Inr (), b') \<and> get_rec r b' = (Inr (Some lang), b')) \<and>
    k \<noteq> [] \<and> k \<in> set (Object_keys d) \<longrightarrow>
      (\<exists>s' w''. initialize d False (new_Langer r p) w' = (Inr (), s', w'') \<and>
         initialized s' \<and> speaking s' = Inr k \<and> u_says s' = get_prop d k \<and>
         availableLanguages s' = Inr (Object_keys d))"
    using a by blast
  have c3: "initialize d True (new_Langer r (PresetString l)) w = (Inr (), s2, w2) \<longrightarrow>
      l \<in> set (Object_keys d) \<and> u_currLanguage s2 = Some l \<and> u_says s2 = get_prop d l"
    using initialize_reset_fixed_Inr [of d r l w s2 w2] by blast
  have c4: "initialize d True (new_Langer r (PresetFunction f)) w = (Inr (), s3, w3) \<longrightarrow>
      (\<exists>lang. f (Object_keys d) (navigator_languages w) = Inr lang \<and>
         lang \<in> set (Object_keys d) \<and> u_currLanguage s3 = Some lang \<and>
         u_says s3 = get_prop d lang)"
    using initialize_reset_function_Inr [of d r f w s3 w3] by blast
  have c5: "l \<in> set (Object_keys d) \<and> set_rec r l (backing w) = (Inr (), b) \<longrightarrow>
      initialize d True (new_Langer r (PresetString l)) w =
        (Inr (),
         (new_Langer r (PresetString l))
           \<lparr>u_data := Some d, u_availableLanguages := Some (Object_keys d),
            u_currLanguage := Some l, u_says := get_prop d l, u_initialized := True\<rparr>,
         w\<lparr>backing := b\<rparr>)"
    using initialize_reset_fixed [of l d r w b] by blast
  have c6: "f (Object_keys d) (navigator_languages w) = Inr l \<and> l \<in> set (Object_keys d) \<and>
    set_rec r l (backing w) = (Inr (), b) \<longrightarrow>
      initialize d True (new_Langer r (PresetFunction f)) w =
        (Inr (),
         (new_Langer r (PresetFunction f))
           \<lparr>u_data := Some d, u_availableLanguages := Some (Object_keys d),
            u_currLanguage := Some l, u_says := get_prop d l, u_initialized := True\<rparr>,
         w\<lparr>backing := b\<rparr>)"
    using initialize_reset_function [of f d w l r b] by blast
  show ?thesis
    by (intro conjI c1 c3 c4 c5 c6 initialize_reset_get_rec)
qed

theorem remembered_language_round_trip_witness:
  "snd (snd (speak ''zh'' (fst initialized_run) (snd initialized_run))) = browser_saved ''zh'' \<and>
   fst (initialize updated False default_Langer (browser_saved ''zh'')) = Inr () \<and>
   speaking (fst (snd (initialize updated False default_Langer (browser_saved ''zh'')))) = Inr ''zh'' \<and>
   fst (initialize updated True (new_Langer recorder (PresetString ''ja''))
      (browser_saved ''zh'')) = Inr () \<and>
   speaking (fst (snd (initialize updated True (new_Langer recorder (PresetString ''ja''))
      (browser_saved ''zh'')))) = Inr ''ja'' \<and>
   fst (initialize updated True (new_Langer recorder (PresetFunction presetLanguage))
      ((browser_saved ''en'')\<lparr>navigator_languages := [''zh-TW'']\<rparr>)) = Inr () \<and>
   speaking (fst (snd (initialize updated True (new_Langer recorder (PresetFunction presetLanguage))
      ((browser_saved ''en'')\<lparr>navigator_languages := [''zh-TW'']\<rparr>)))) = Inr ''zh''"
proof -
  let ?w = "(browser_saved ''en'')\<lparr>navigator_languages := [''zh-TW'']\<rparr>"
  obtain a' where sp: "speak ''zh'' (fst initialized_run) (snd initialized_run) =
      (Inr (), a', browser_saved ''zh'')"
    by (simp add: initialized_run_eq method_defs data_defs)
  have h: "u_recorder (fst initialized_run) = Some recorder"
    "\<forall>lang b. \<exists>b'. set_rec recorder lang b = (Inr (), b') \<and>
        get_rec recorder b' = (Inr (Some lang), b')"
    "''zh'' \<noteq> []" "''zh'' \<in> set (Object_keys updated)"
    by (simp_all add: initialized_run_eq data_defs)
  note t = remembered_language_round_trip [where k = "''zh''" and a = "fst initialized_run"
      and a' = a' and w' = "browser_saved ''zh''" and w = "browser_saved ''zh''"
      and r = recorder and d = updated and p = "PresetFunction presetLanguage"
      and l = "''ja''" and b = "backing (browser_saved ''ja'')"]
  have sp': "speak ''zh'' (fst initialized_run) (browser_saved ''zh'') =
      (Inr (), a', browser_saved ''zh'')"
    using sp by (simp add: initialized_run_eq method_defs data_defs)
  from t [THEN conjunct1] sp' h obtain s' w'' where
    i: "initialize updated False (new_Langer recorder (PresetFunction presetLanguage))
          (browser_saved ''zh'') = (Inr (), s', w'')" "speaking s' = Inr ''zh''"
    by blast
  from i have one: "fst (initialize updated False default_Langer (browser_saved ''zh'')) = Inr () \<and>
   speaking (fst (snd (initialize updated False default_Langer (browser_saved ''zh'')))) = Inr ''zh''"
    by (simp add: default_Langer_def getDefOptions_def)
  have fx: "''ja'' \<in> set (Object_keys updated)"
    "set_rec recorder ''ja'' (backing (browser_saved ''zh'')) =
       (Inr (), backing (browser_saved ''ja''))"
    by (simp_all add: data_defs)
  from t [THEN conjunct2, THEN conjunct2, THEN conjunct2, THEN conjunct2, THEN conjunct1] fx
  have two:
    "fst (initialize updated True (new_Langer recorder (PresetString ''ja''))
      (browser_saved ''zh'')) = Inr () \<and>
     speaking (fst (snd (initialize updated True (new_Langer recorder (PresetString ''ja''))
      (browser_saved ''zh'')))) = Inr ''ja''"
    by (simp add: speaking_def)
  note t3 = remembered_language_round_trip [where w = ?w and r = recorder and d = updated
      and f = presetLanguage and l = "''zh''" and b = "backing (browser_saved ''zh'')"]
  have fn: "presetLanguage (Object_keys updated) (navigator_languages ?w) = Inr ''zh''"
    "''zh'' \<in> set (Object_keys updated)"
    "set_rec recorder ''zh'' (backing ?w) = (Inr (), backing (browser_saved ''zh''))"
    by (simp_all add: data_defs)
  from t3 [THEN conjunct2, THEN conjunct2, THEN conjunct2, THEN conjunct2, THEN conjunct2] fn
  have three:
    "fst (initialize updated True (new_Langer recorder (PresetFunction presetLanguage)) ?w) =
       Inr () \<and>
     speaking (fst (snd (initialize updated True
       (new_Langer recorder (PresetFunction presetLanguage)) ?w))) = Inr ''zh''"
    by (simp add: speaking_def)
  from one two three sp show ?thesis by simp
qed

end
